theory Spec2Isabelle
  imports Main "HOL-Library.Sublist"
begin

section \<open>C strings and the library functions that alarm.c calls\<close>

text \<open>
  A C string is modelled as the list of its bytes before the terminating NUL.
  The functions of the C library that \<^verbatim>\<open>alarm.c\<close> calls are written out here
  after the C standard; everything else in this theory follows \<^verbatim>\<open>alarm.c\<close>.
\<close>

text \<open>\<^verbatim>\<open>strcmp\<close>: bytes are compared as \<^verbatim>\<open>unsigned char\<close>; only the sign of the
  result is specified, so the model returns -1, 0 or 1.\<close>

fun strcmp :: "string \<Rightarrow> string \<Rightarrow> int" where
  "strcmp [] [] = 0"
| "strcmp [] (b # bs) = -1"
| "strcmp (a # as) [] = 1"
| "strcmp (a # as) (b # bs) =
     (if a = b then strcmp as bs
      else if (of_char a :: nat) < of_char b then -1 else 1)"

text \<open>\<^verbatim>\<open>strstr(haystack, needle) != NULL\<close>.\<close>

fun strstr :: "string \<Rightarrow> string \<Rightarrow> bool" where
  "strstr [] needle = (needle = [])"
| "strstr (h # hs) needle = (prefix needle (h # hs) \<or> strstr hs needle)"

text \<open>\<^verbatim>\<open>strrchr(s, c)\<close>: the offset of the last occurrence of \<open>c\<close>, \<open>None\<close> for
  \<^verbatim>\<open>NULL\<close>.\<close>

fun strrchr :: "string \<Rightarrow> char \<Rightarrow> nat option" where
  "strrchr [] c = None"
| "strrchr (x # xs) c =
     (case strrchr xs c of
        Some i \<Rightarrow> Some (Suc i)
      | None \<Rightarrow> if x = c then Some 0 else None)"

text \<open>\<^verbatim>\<open>bsearch\<close>: the halving search of the C libraries. The interval is
  \<open>[l, u)\<close>, the probe is its middle element, and the comparison function is applied to
  the key and the probed element. The result is the index of the element found.\<close>

function bsearch_loop :: "('k \<Rightarrow> 'e \<Rightarrow> int) \<Rightarrow> 'k \<Rightarrow> 'e list \<Rightarrow> nat \<Rightarrow> nat \<Rightarrow> nat option" where
  "bsearch_loop compar key base l u =
     (if l < u then
        (let idx = (l + u) div 2; comparison = compar key (base ! idx) in
         if comparison < 0 then bsearch_loop compar key base l idx
         else if comparison > 0 then bsearch_loop compar key base (idx + 1) u
         else Some idx)
      else None)"
  by pat_completeness auto
termination
  by (relation "measure (\<lambda>(compar, key, base, l, u). u - l)") auto

definition bsearch :: "'k \<Rightarrow> 'e list \<Rightarrow> nat \<Rightarrow> ('k \<Rightarrow> 'e \<Rightarrow> int) \<Rightarrow> nat option" where
  "bsearch key base nmemb compar = bsearch_loop compar key base 0 nmemb"

section \<open>Test identity\<close>

text \<open>The loop \<^verbatim>\<open>for (argi=1; argi < argc; argi++) if (strstr(argv[argi], "wine")) break;\<close>
  of \<^verbatim>\<open>getTestID\<close>; the result is the value of \<^verbatim>\<open>argi\<close> after the loop.\<close>

function scan_wine :: "string list \<Rightarrow> nat \<Rightarrow> nat" where
  "scan_wine argv argi =
     (if argi < length argv then
        (if strstr (argv ! argi) ''wine'' then argi else scan_wine argv (argi + 1))
      else argi)"
  by pat_completeness auto
termination
  by (relation "measure (\<lambda>(argv, argi). length argv - argi)") auto

text \<open>\<^verbatim>\<open>getTestID(argc, argv, buf)\<close> with \<open>argc = length argv\<close>: \<open>None\<close> when the
  function returns 0 (nothing has been written to \<^verbatim>\<open>buf\<close> then), \<open>Some s\<close> when it
  returns 1 after writing the string \<open>s\<close> to \<^verbatim>\<open>buf\<close>. The function does not know the
  size of \<^verbatim>\<open>buf\<close>.\<close>

definition getTestID :: "string list \<Rightarrow> string option" where
  "getTestID argv =
     (let argi = scan_wine argv 1 in
      if argi + 2 \<ge> length argv then None
      else
        (let module = argv ! (argi + 1) in
         case strrchr module (CHR ''_'') of
           None \<Rightarrow> None
         | Some module_end \<Rightarrow>
             (let file = argv ! (argi + 2) in
              case strrchr file (CHR ''.'') of
                None \<Rightarrow> None
              | Some file_end \<Rightarrow>
                  Some (take module_end module @ '':'' @ take file_end file))))"

section \<open>Whitelist\<close>

definition whitelist :: "string list" where
  "whitelist = [
    ''advapi32:cred'',
    ''advapi32:crypt'',
    ''advapi32:crypt_lmhash'',
    ''advapi32:crypt_md4'',
    ''advapi32:crypt_md5'',
    ''advapi32:crypt_sha'',
    ''advapi32:lsa'',
    ''advapi32:registry'',
    ''advapi32:security'',
    ''advapi32:service'',
    ''advpack:advpack'',
    ''advpack:files'',
    ''comctl32:misc'',
    ''comctl32:mru'',
    ''comdlg32:printdlg'',
    ''credui:credui'',
    ''crypt32:base64'',
    ''crypt32:cert'',
    ''crypt32:chain'',
    ''crypt32:crl'',
    ''crypt32:ctl'',
    ''crypt32:encode'',
    ''crypt32:main'',
    ''crypt32:message'',
    ''crypt32:oid'',
    ''crypt32:protectdata'',
    ''crypt32:sip'',
    ''crypt32:store'',
    ''crypt32:str'',
    ''cryptnet:cryptnet'',
    ''cryptui:cryptui'',
    ''d3drm:vector'',
    ''d3dx8:math'',
    ''d3dx9_36:math'',
    ''d3dxof:d3dxof'',
    ''dnsapi:name'',
    ''dnsapi:record'',
    ''dplayx:dplayx'',
    ''fusion:asmcache'',
    ''fusion:asmname'',
    ''fusion:fusion'',
    ''gdi32:bitmap'',
    ''gdi32:brush'',
    ''gdi32:gdiobj'',
    ''gdi32:generated'',
    ''gdi32:icm'',
    ''gdi32:mapping'',
    ''gdi32:palette'',
    ''gdi32:path'',
    ''gdi32:pen'',
    ''gdiplus:brush'',
    ''gdiplus:customlinecap'',
    ''gdiplus:graphics'',
    ''gdiplus:graphicspath'',
    ''gdiplus:matrix'',
    ''gdiplus:pathiterator'',
    ''gdiplus:pen'',
    ''gdiplus:region'',
    ''gdiplus:stringformat'',
    ''inetmib1:main'',
    ''iphlpapi:iphlpapi'',
    ''kernel32:actctx'',
    ''kernel32:alloc'',
    ''kernel32:atom'',
    ''kernel32:change'',
    ''kernel32:codepage'',
    ''kernel32:comm'',
    ''kernel32:debugger'',
    ''kernel32:directory'',
    ''kernel32:drive'',
    ''kernel32:environ'',
    ''kernel32:file'',
    ''kernel32:format_msg'',
    ''kernel32:generated'',
    ''kernel32:heap'',
    ''kernel32:loader'',
    ''kernel32:locale'',
    ''kernel32:mailslot'',
    ''kernel32:module'',
    ''kernel32:path'',
    ''kernel32:pipe'',
    ''kernel32:profile'',
    ''kernel32:resource'',
    ''kernel32:sync'',
    ''kernel32:time'',
    ''kernel32:timer'',
    ''kernel32:toolhelp'',
    ''kernel32:version'',
    ''kernel32:virtual'',
    ''kernel32:volume'',
    ''localspl:localmon'',
    ''localui:localui'',
    ''lz32:lzexpand_main'',
    ''mapi32:imalloc'',
    ''mapi32:prop'',
    ''mapi32:util'',
    ''msacm32:msacm'',
    ''mscms:profile'',
    ''msvcrt:cpp'',
    ''msvcrt:data'',
    ''msvcrtd:debug'',
    ''msvcrt:dir'',
    ''msvcrt:environ'',
    ''msvcrt:file'',
    ''msvcrt:headers'',
    ''msvcrt:heap'',
    ''msvcrt:printf'',
    ''msvcrt:scanf'',
    ''msvcrt:string'',
    ''msvcrt:time'',
    ''netapi32:access'',
    ''netapi32:apibuf'',
    ''netapi32:ds'',
    ''netapi32:wksta'',
    ''ntdll:atom'',
    ''ntdll:change'',
    ''ntdll:env'',
    ''ntdll:error'',
    ''ntdll:exception'',
    ''ntdll:file'',
    ''ntdll:generated'',
    ''ntdll:info'',
    ''ntdll:large_int'',
    ''ntdll:om'',
    ''ntdll:path'',
    ''ntdll:port'',
    ''ntdll:reg'',
    ''ntdll:rtl'',
    ''ntdll:rtlbitmap'',
    ''ntdll:rtlstr'',
    ''ntdll:string'',
    ''ntdll:time'',
    ''ntdsapi:ntdsapi'',
    ''ntprint:ntprint'',
    ''odbccp32:misc'',
    ''ole32:errorinfo'',
    ''ole32:hglobalstream'',
    ''ole32:propvariant'',
    ''ole32:stg_prop'',
    ''ole32:storage32'',
    ''oleacc:main'',
    ''oleaut32:olefont'',
    ''oleaut32:olepicture'',
    ''oleaut32:safearray'',
    ''oleaut32:typelib'',
    ''oleaut32:varformat'',
    ''oleaut32:vartest'',
    ''oleaut32:vartype'',
    ''pdh:pdh'',
    ''psapi:psapi_main'',
    ''rasapi32:rasapi'',
    ''rpcrt4:generated'',
    ''rpcrt4:ndr_marshall'',
    ''rpcrt4:rpc_async'',
    ''rpcrt4:server'',
    ''rsaenh:rsaenh'',
    ''schannel:main'',
    ''secur32:main'',
    ''secur32:ntlm'',
    ''secur32:schannel'',
    ''secur32:secur32'',
    ''serialui:confdlg'',
    ''setupapi:devinst'',
    ''setupapi:parser'',
    ''setupapi:query'',
    ''setupapi:stringtable'',
    ''shdocvw:shdocvw'',
    ''shell32:generated'',
    ''shell32:shfldr_special'',
    ''shell32:shlfileop'',
    ''shlwapi:assoc'',
    ''shlwapi:clist'',
    ''shlwapi:clsid'',
    ''shlwapi:generated'',
    ''shlwapi:istream'',
    ''shlwapi:ordinal'',
    ''shlwapi:path'',
    ''shlwapi:url'',
    ''snmpapi:util'',
    ''spoolss:spoolss'',
    ''urlmon:generated'',
    ''user32:generated'',
    ''user32:resource'',
    ''user32:wsprintf'',
    ''userenv:userenv'',
    ''version:info'',
    ''version:install'',
    ''winhttp:notification'',
    ''winhttp:url'',
    ''winhttp:winhttp'',
    ''wininet:generated'',
    ''wininet:http'',
    ''wininet:internet'',
    ''wininet:url'',
    ''wininet:urlcache'',
    ''winmm:capture'',
    ''winmm:mixer'',
    ''winmm:mmio'',
    ''winmm:timer'',
    ''winmm:wave'',
    ''winspool.drv:info'',
    ''wintrust:asn'',
    ''wintrust:crypt'',
    ''wintrust:register'',
    ''wintrust:softpub'',
    ''wldap32:parse'',
    ''ws2_32:protocol'',
    ''ws2_32:sock'']"

definition whitelist_len :: nat where
  "whitelist_len = length whitelist"

definition mystrcmp :: "string \<Rightarrow> string \<Rightarrow> int" where
  "mystrcmp a b = strcmp a b"

definition inWhitelist :: "string \<Rightarrow> bool" where
  "inWhitelist testid = (bsearch testid whitelist whitelist_len mystrcmp \<noteq> None)"

section \<open>Environment probe\<close>

text \<open>\<^verbatim>\<open>atoi\<close>: white space is skipped, an optional sign is read, then decimal digits
  as long as there are any; with no digit the result is 0. The C standard leaves the
  result undefined when the number does not fit an \<^verbatim>\<open>int\<close>; the model returns the
  number itself.\<close>

definition isspace :: "char \<Rightarrow> bool" where
  "isspace c = (c \<in> {CHR '' '', CHR 0x09, CHR 0x0A, CHR 0x0B, CHR 0x0C, CHR 0x0D})"

definition isdigit :: "char \<Rightarrow> bool" where
  "isdigit c = (48 \<le> (of_char c :: nat) \<and> (of_char c :: nat) \<le> 57)"

fun digits :: "int \<Rightarrow> string \<Rightarrow> int" where
  "digits acc [] = acc"
| "digits acc (c # cs) =
     (if isdigit c then digits (acc * 10 + (int (of_char c) - 48)) cs else acc)"

definition atoi :: "string \<Rightarrow> int" where
  "atoi s =
     (case dropWhile isspace s of
        [] \<Rightarrow> 0
      | c # cs \<Rightarrow>
          if c = CHR ''-'' then - digits 0 cs
          else if c = CHR ''+'' then digits 0 cs
          else digits 0 (c # cs))"

text \<open>What one call of \<^verbatim>\<open>getVideoMode\<close> meets: \<^verbatim>\<open>popen\<close> returns \<^verbatim>\<open>NULL\<close>; or
  \<^verbatim>\<open>fgets\<close> returns \<^verbatim>\<open>NULL\<close> (the command printed nothing); or \<^verbatim>\<open>fgets\<close> stores
  the first line of the command's output in \<^verbatim>\<open>buf\<close>.\<close>

datatype probe = Popen_failed | No_line | First_line string

definition getVideoMode :: "probe \<Rightarrow> int" where
  "getVideoMode xrandr =
     (case xrandr of
        Popen_failed \<Rightarrow> 0
      | No_line \<Rightarrow> 0
      | First_line buf \<Rightarrow> atoi buf - 2)"

section \<open>The supervisor\<close>

definition isParallelRun :: "string option \<Rightarrow> bool" where
  "isParallelRun makeflags =
     (case makeflags of None \<Rightarrow> False | Some m \<Rightarrow> strstr m ''jobserver'')"

text \<open>The termination status that \<^verbatim>\<open>wait\<close> stores, read by \<^verbatim>\<open>WIFEXITED\<close> and
  \<^verbatim>\<open>WEXITSTATUS\<close>: the child called \<^verbatim>\<open>exit\<close> with a code, or a signal ended it.\<close>

datatype wstatus = Exited nat | Signaled nat

fun WIFEXITED :: "wstatus \<Rightarrow> bool" where
  "WIFEXITED (Exited code) = True"
| "WIFEXITED (Signaled sig) = False"

fun WEXITSTATUS :: "wstatus \<Rightarrow> int" where
  "WEXITSTATUS (Exited code) = int code"
| "WEXITSTATUS (Signaled sig) = 0"

text \<open>How the loop \<^verbatim>\<open>while ((ret = wait(&waitresult)) == -1 && errno == EINTR);\<close> ends:
  \<^verbatim>\<open>wait\<close> returns the child and stores its status; or \<^verbatim>\<open>wait\<close> fails with another
  error than \<^verbatim>\<open>EINTR\<close> (\<^verbatim>\<open>ECHILD\<close>, for instance when \<^verbatim>\<open>SIGCHLD\<close> is ignored) and stores
  nothing; or \<^verbatim>\<open>SIGALRM\<close> arrives first and \<^verbatim>\<open>handler\<close> runs. An interrupted \<^verbatim>\<open>wait\<close>
  is retried by the loop and is no event of its own. \<^verbatim>\<open>fork\<close> is taken to succeed.\<close>

datatype wait_end = Wait_ok | Wait_error | Alarm_first

text \<open>What the supervisor sees of it.\<close>

datatype wait_event = Reaped wstatus | Failed | Deadline

text \<open>Everything the supervisor reads from its surroundings during one run.\<close>

record world =
  argv :: "string list"  \<comment> \<open>the command line, \<^verbatim>\<open>argv[0]\<close> included\<close>
  makeflags :: "string option"  \<comment> \<open>\<^verbatim>\<open>getenv("MAKEFLAGS")\<close>\<close>
  testid_stale :: string  \<comment> \<open>the bytes found in \<^verbatim>\<open>testid\<close> when nothing was written to it\<close>
  video_before :: probe  \<comment> \<open>what the first call of \<^verbatim>\<open>getVideoMode\<close> meets\<close>
  video_after :: probe  \<comment> \<open>what the second call meets\<close>
  lock_opens :: bool  \<comment> \<open>\<^verbatim>\<open>open("alarm.lock", ...) != -1\<close>\<close>
  log_opens :: bool  \<comment> \<open>\<^verbatim>\<open>open(logfilename, ...) != -1\<close>\<close>
  loglock_opens :: bool  \<comment> \<open>\<^verbatim>\<open>open("log.lock", ...) != -1\<close>\<close>
  child_end :: wstatus  \<comment> \<open>how the child ends when the timer does not end it\<close>
  wait_ends :: wait_end  \<comment> \<open>how the \<^verbatim>\<open>wait\<close> loop ends\<close>
  late_alarm :: "nat option"
    \<comment> \<open>\<open>Some k\<close>: \<^verbatim>\<open>SIGALRM\<close> arrives when \<open>k\<close> of the actions after the \<^verbatim>\<open>wait\<close> are done\<close>
  log_offset :: int  \<comment> \<open>\<^verbatim>\<open>lseek(logfd, 0, SEEK_CUR)\<close> after the wait\<close>
  log_data :: string  \<comment> \<open>the bytes of the temporary file, read back from offset 0\<close>
  reset_status :: int  \<comment> \<open>what \<^verbatim>\<open>system("xrandr -s 0")\<close> returns\<close>

text \<open>The actions of the supervisor that are visible from outside, in program order.\<close>

datatype lock_op = LOCK_EX | LOCK_UN

datatype action =
    Stderr string  \<comment> \<open>\<^verbatim>\<open>fprintf(stderr, ...)\<close>\<close>
  | Printf string  \<comment> \<open>\<^verbatim>\<open>printf(...)\<close>\<close>
  | Write1 string  \<comment> \<open>\<^verbatim>\<open>write(1, buf, n)\<close>\<close>
  | GetVideoMode int  \<comment> \<open>a call of \<^verbatim>\<open>getVideoMode\<close> and its result\<close>
  | Open_file string bool  \<comment> \<open>\<^verbatim>\<open>open(path, O_RDWR|O_CREAT, ...)\<close> and whether it succeeded\<close>
  | Flock string lock_op  \<comment> \<open>\<^verbatim>\<open>flock\<close> on the descriptor of the named file\<close>
  | Fork_exec "string list" bool  \<comment> \<open>the child runs the command; is its output redirected to the log?\<close>
  | Alarm int  \<comment> \<open>\<^verbatim>\<open>signal(SIGALRM, handler); alarm(timeout)\<close>\<close>
  | Wait wait_event  \<comment> \<open>the \<^verbatim>\<open>wait\<close> loop and how it ended\<close>
  | Kill_SIGKILL  \<comment> \<open>\<^verbatim>\<open>kill(child_pid, SIGKILL)\<close>\<close>
  | Rewind_log  \<comment> \<open>\<^verbatim>\<open>lseek(logfd, 0, SEEK_SET)\<close>\<close>
  | Close_log
  | Remove string
  | System string

text \<open>A run ends with the list of its actions and the exit status of the supervisor.
  Writing past the end of a buffer is undefined in C; the model stops there with a
  fault.\<close>

datatype fault = Testid_overrun | Logfilename_overrun

type_synonym run = "action list \<times> int"

definition MAXARGS :: nat where
  "MAXARGS = 1000"

definition MYBUFLEN :: nat where
  "MYBUFLEN = 128000"

text \<open>\<^verbatim>\<open>for (newargc=0; newargc < argc-2 && newargc < MAXARGS-1; newargc++)
  newargv[newargc] = argv[newargc+2];\<close>\<close>

definition newargv :: "string list \<Rightarrow> string list" where
  "newargv args = take (MAXARGS - 1) (drop 2 args)"

text \<open>\<^verbatim>\<open>printf("%d", i)\<close>.\<close>

function dec_nat :: "nat \<Rightarrow> string" where
  "dec_nat n =
     (if n < 10 then [char_of (48 + n)]
      else dec_nat (n div 10) @ [char_of (48 + n mod 10)])"
  by pat_completeness auto
termination
  by (relation "measure (\<lambda>n. n)") auto

definition fmt_d :: "int \<Rightarrow> string" where
  "fmt_d i = (if i < 0 then CHR ''-'' # dec_nat (nat (- i)) else dec_nat (nat i))"

text \<open>\<^verbatim>\<open>handler\<close>: the diagnostic, the kill, \<^verbatim>\<open>exit(1)\<close>.\<close>

definition handler :: run where
  "handler = ([Stderr ''alarm: Timeout!  Killing child.\<newline>'', Kill_SIGKILL], 1)"

text \<open>The loop \<^verbatim>\<open>while ((n = read(logfd, buf, MYBUFLEN)) > 0) write(1, buf, n);\<close> over
  the bytes that are left in the file.\<close>

function copy_log :: "string \<Rightarrow> action list" where
  "copy_log rest =
     (if rest = [] then []
      else Write1 (take MYBUFLEN rest) # copy_log (drop MYBUFLEN rest))"
  by pat_completeness auto
termination
  by (relation "measure length") (auto simp: MYBUFLEN_def)

text \<open>\<^verbatim>\<open>main\<close> from the test of \<^verbatim>\<open>notWhitelisted\<close> up to the \<^verbatim>\<open>wait\<close>: the first
  probe, the execution lock, the temporary file, the child, the timer. The arguments are
  the value of \<^verbatim>\<open>notWhitelisted\<close> and the contents of \<^verbatim>\<open>testid\<close>.\<close>

definition before_wait :: "world \<Rightarrow> bool \<Rightarrow> string \<Rightarrow> action list" where
  "before_wait w notWhitelisted testid =
     (if notWhitelisted then [GetVideoMode (getVideoMode (video_before w))] else [])
     @ (if isParallelRun (makeflags w) then
          (if notWhitelisted then
             Open_file ''alarm.lock'' (lock_opens w)
             # (if lock_opens w then [Flock ''alarm.lock'' LOCK_EX] else [])
           else [])
          @ [Open_file (testid @ ''.tmplog'') (log_opens w)]
        else [])
     @ [Fork_exec (newargv (argv w)) (isParallelRun (makeflags w) \<and> log_opens w),
        Alarm (atoi (argv w ! 1))]"

text \<open>The block guarded by \<^verbatim>\<open>logfd != -1 && lseek(logfd, 0, SEEK_CUR) != 0\<close>.\<close>

definition replay :: "world \<Rightarrow> string \<Rightarrow> action list" where
  "replay w testid =
     (if isParallelRun (makeflags w) \<and> log_opens w \<and> log_offset w \<noteq> 0 then
        Open_file ''log.lock'' (loglock_opens w)
        # (if loglock_opens w then [Flock ''log.lock'' LOCK_EX] else [])
        @ [Write1 (''alarm: runtest '' @ testid @ '' log:\<newline>''), Rewind_log]
        @ copy_log (log_data w)
        @ [Close_log, Remove (testid @ ''.tmplog''), Write1 ''alarm: log end\<newline>'']
        @ (if loglock_opens w then [Flock ''log.lock'' LOCK_UN] else [])
      else [])"

text \<open>\<^verbatim>\<open>if (lockfd != -1) flock(lockfd, LOCK_UN);\<close> The descriptor \<^verbatim>\<open>lockfd\<close> is
  not -1 when the run is parallel, \<^verbatim>\<open>notWhitelisted\<close> is set and the lock file opened.\<close>

definition release_lock :: "world \<Rightarrow> bool \<Rightarrow> action list" where
  "release_lock w notWhitelisted =
     (if isParallelRun (makeflags w) \<and> notWhitelisted \<and> lock_opens w
      then [Flock ''alarm.lock'' LOCK_UN] else [])"

text \<open>\<^verbatim>\<open>main\<close> from \<^verbatim>\<open>/* Report crashes */\<close> to the end.\<close>

definition classify :: "world \<Rightarrow> bool \<Rightarrow> wstatus \<Rightarrow> run" where
  "classify w notWhitelisted waitresult =
     (if \<not> WIFEXITED waitresult then
        ([Printf ''alarm: Terminated abnormally\<newline>''], 99)
      else if notWhitelisted then
        (let origVideoMode = getVideoMode (video_before w);
             videoMode = getVideoMode (video_after w)
         in
         if videoMode \<noteq> origVideoMode then
           ([GetVideoMode videoMode,
             Printf (''alarm: video mode changed! was '' @ fmt_d origVideoMode
                     @ '', now '' @ fmt_d videoMode @ ''\<newline>''),
             System ''xrandr -s 0''], 1)
         else ([GetVideoMode videoMode], WEXITSTATUS waitresult))
      else ([], WEXITSTATUS waitresult))"

text \<open>The event of the \<^verbatim>\<open>wait\<close> loop, and the value of \<^verbatim>\<open>waitresult\<close> after the loop:
  \<^verbatim>\<open>main\<close> sets it to 0 before the loop, which reads as a normal exit with code 0, and a
  failing \<^verbatim>\<open>wait\<close> leaves it so.\<close>

definition observed :: "world \<Rightarrow> wait_event" where
  "observed w =
     (case wait_ends w of
        Wait_ok \<Rightarrow> Reaped (child_end w)
      | Wait_error \<Rightarrow> Failed
      | Alarm_first \<Rightarrow> Deadline)"

definition waitresult :: "world \<Rightarrow> wstatus" where
  "waitresult w =
     (case wait_ends w of
        Wait_ok \<Rightarrow> child_end w
      | Wait_error \<Rightarrow> Exited 0
      | Alarm_first \<Rightarrow> Exited 0)"

text \<open>\<^verbatim>\<open>main\<close> from the end of the \<^verbatim>\<open>wait\<close> loop to its own end, when nothing
  interrupts it.\<close>

definition after_wait :: "world \<Rightarrow> bool \<Rightarrow> string \<Rightarrow> run" where
  "after_wait w notWhitelisted testid =
     (replay w testid @ release_lock w notWhitelisted
      @ fst (classify w notWhitelisted (waitresult w)),
      snd (classify w notWhitelisted (waitresult w)))"

text \<open>\<^verbatim>\<open>main\<close> never disarms the timer (there is no \<^verbatim>\<open>alarm(0)\<close>), so \<^verbatim>\<open>SIGALRM\<close> can
  also arrive after the \<^verbatim>\<open>wait\<close> loop, at any point before the supervisor exits: while it
  blocks in \<^verbatim>\<open>flock\<close>, copies the log or probes the video mode. Then \<^verbatim>\<open>handler\<close> runs in
  place of the remaining actions. A timer that expires after the last action has no
  effect.\<close>

definition interrupted :: "nat option \<Rightarrow> run \<Rightarrow> run" where
  "interrupted late r =
     (case late of
        None \<Rightarrow> r
      | Some k \<Rightarrow>
          if k \<le> length (fst r) then (take k (fst r) @ fst handler, snd handler) else r)"

text \<open>\<^verbatim>\<open>main\<close> after the call of \<^verbatim>\<open>getTestID\<close>. The buffer \<^verbatim>\<open>logfilename\<close> has 1024
  bytes.\<close>

definition supervise :: "world \<Rightarrow> bool \<Rightarrow> string \<Rightarrow> fault + run" where
  "supervise w notWhitelisted testid =
     (if isParallelRun (makeflags w) \<and> length (testid @ ''.tmplog'') \<ge> 1024 then
        Inl Logfilename_overrun
      else if wait_ends w = Alarm_first then
        Inr (before_wait w notWhitelisted testid @ [Wait Deadline] @ fst handler,
             snd handler)
      else
        Inr (before_wait w notWhitelisted testid @ [Wait (observed w)]
             @ fst (interrupted (late_alarm w) (after_wait w notWhitelisted testid)),
             snd (interrupted (late_alarm w) (after_wait w notWhitelisted testid))))"

text \<open>The result of \<^verbatim>\<open>getTestID(newargc,newargv,testid)\<close> in \<^verbatim>\<open>main\<close>, the value of
  \<^verbatim>\<open>notWhitelisted = getTestID(newargc,newargv,testid) && !inWhitelist(testid)\<close>, and the
  contents of \<^verbatim>\<open>testid\<close> after that line.\<close>

definition identity :: "world \<Rightarrow> string option" where
  "identity w = getTestID (newargv (argv w))"

definition notWhitelisted :: "world \<Rightarrow> bool" where
  "notWhitelisted w = (case identity w of None \<Rightarrow> False | Some s \<Rightarrow> \<not> inWhitelist s)"

definition testid :: "world \<Rightarrow> string" where
  "testid w = (case identity w of None \<Rightarrow> testid_stale w | Some s \<Rightarrow> s)"

text \<open>\<^verbatim>\<open>main\<close>. The buffer \<^verbatim>\<open>testid\<close> has 64 bytes.\<close>

definition main :: "world \<Rightarrow> fault + run" where
  "main w =
     (if length (argv w) < 3 then
        Inr ([Stderr ''Usage: alarm timeout-in-seconds command ...\<newline>''], 1)
      else if atoi (argv w ! 1) < 1 then
        Inr ([Stderr (''Timeout must be positive, was '' @ argv w ! 1 @ ''\<newline>'')], 1)
      else if (case identity w of None \<Rightarrow> False | Some s \<Rightarrow> length s \<ge> 64) then
        Inl Testid_overrun
      else supervise w (notWhitelisted w) (testid w))"

section \<open>Notions used to state the properties\<close>

text \<open>Every entry compares below its successor under \<^verbatim>\<open>strcmp\<close>.\<close>

fun ascending :: "string list \<Rightarrow> bool" where
  "ascending (a # b # rest) = (strcmp a b < 0 \<and> ascending (b # rest))"
| "ascending rest = True"

text \<open>A line in which \<^verbatim>\<open>atoi\<close> finds no number: after the white space and an
  optional sign there is no digit.\<close>

definition starts_with_digit :: "string \<Rightarrow> bool" where
  "starts_with_digit s = (case s of [] \<Rightarrow> False | d # ds \<Rightarrow> isdigit d)"

definition no_number :: "string \<Rightarrow> bool" where
  "no_number s =
     (case dropWhile isspace s of
        [] \<Rightarrow> True
      | c # cs \<Rightarrow>
          \<not> starts_with_digit (if c = CHR ''-'' \<or> c = CHR ''+'' then cs else c # cs))"


subsection \<open>Example runs\<close>















text \<open>Parallel runs of a command in which no identity is found: the child writes
  nothing; the child writes a line; the same with a timer that expires while the
  supervisor waits for the lock on \<^verbatim>\<open>log.lock\<close>; the child writes nothing and the
  temporary file is left over from an earlier run.\<close>

definition w_fail :: world where
  "w_fail = \<lparr>argv = [''alarm'', ''5'', ''sleep'', ''1''],
     makeflags = Some ''--jobserver-fds=3,4 -j'', testid_stale = ''?'',
     video_before = First_line ''12:   1024x768   60.0*'',
     video_after = First_line ''1:   800x600   60.0*'',
     lock_opens = True, log_opens = True, loglock_opens = True,
     child_end = Exited 0, wait_ends = Wait_ok, late_alarm = None,
     log_offset = 0, log_data = [], reset_status = 0\<rparr>"

definition trace_fail :: "action list" where
  "trace_fail =
     [Open_file ''?.tmplog'' True, Fork_exec [''sleep'', ''1''] True, Alarm 5,
      Wait (Reaped (Exited 0))]"





declare copy_log.simps [simp del] bsearch_loop.simps [simp del] scan_wine.simps [simp del]
  dec_nat.simps [simp del]


section \<open>Test identity: the first token is not scanned\<close>

text \<open>
  C2. The claim: an invocation with a marker token followed by \<open>module_suffix\<close> and
  \<open>file.ext\<close> yields the identity \<open>module:file\<close> wherever the marker token stands,
  also when it is the first token, as in \<^verbatim>\<open>wine ntdll_test.exe generated.c\<close>. The
  loop of \<^verbatim>\<open>getTestID\<close> starts at index 1 of the vector it is given, and \<^verbatim>\<open>main\<close>
  gives it the command with the program name and the timeout already removed: on the
  command of the claim no identity is extracted.
\<close>

theorem getTestID_skips_first_token:
  "getTestID [''wine'', ''ntdll_test.exe'', ''generated.c''] = None"
  by code_simp

text \<open>The scan never looks below index 1, so a command of at most three tokens, such as
  the \<^verbatim>\<open>runtest foo_test.exe foo.c\<close> of the usage comment, has no identity.\<close>

lemma scan_wine_ge: "argi \<le> scan_wine args argi"
proof (induction args argi rule: scan_wine.induct)
  case (1 args argi)
  show ?case
  proof (cases "argi < length args \<and> \<not> strstr (args ! argi) ''wine''")
    case True
    then have "scan_wine args argi = scan_wine args (argi + 1)"
      by (subst scan_wine.simps) simp
    with "1.IH" True show ?thesis by simp
  next
    case False
    then have "scan_wine args argi = argi"
      by (subst scan_wine.simps) auto
    then show ?thesis by simp
  qed
qed

lemma getTestID_three_tokens: "length args \<le> 3 \<Longrightarrow> getTestID args = None"
  using scan_wine_ge [of 1 args] by (simp add: getTestID_def Let_def)

text \<open>When the first token that holds the marker stands after the first token of the
  command and is followed by \<open>module_suffix\<close> and \<open>file.ext\<close>, the identity is
  \<open>module:file\<close>.\<close>

lemma scan_wine_finds:
  assumes "\<forall>t\<in>set skipped. \<not> strstr t ''wine''" and "strstr marker ''wine''"
  shows "scan_wine (pre @ skipped @ marker # rest) (length pre) = length pre + length skipped"
  using assms(1)
proof (induction skipped arbitrary: pre)
  case Nil
  show ?case using assms(2) by (subst scan_wine.simps) simp
next
  case (Cons t ts)
  have "scan_wine (pre @ (t # ts) @ marker # rest) (length pre)
        = scan_wine ((pre @ [t]) @ ts @ marker # rest) (length (pre @ [t]))"
    using Cons.prems by (subst scan_wine.simps) simp
  also have "\<dots> = length (pre @ [t]) + length ts"
    using Cons.prems by (intro Cons.IH) simp
  finally show ?case by simp
qed

lemma strrchr_absent: "c \<notin> set xs \<Longrightarrow> strrchr xs c = None"
  by (induction xs) auto

lemma strrchr_last: "c \<notin> set sfx \<Longrightarrow> strrchr (m @ c # sfx) c = Some (length m)"
  by (induction m) (auto simp: strrchr_absent)

lemma getTestID_after_first_token:
  assumes "\<forall>t\<in>set skipped. \<not> strstr t ''wine''" and "strstr marker ''wine''"
    and "CHR ''_'' \<notin> set sfx" and "CHR ''.'' \<notin> set ext"
  shows "getTestID (first # skipped @ marker # (m @ CHR ''_'' # sfx) # (f @ CHR ''.'' # ext) # rest)
         = Some (m @ '':'' @ f)"
proof -
  let ?args = "first # skipped @ marker # (m @ CHR ''_'' # sfx) # (f @ CHR ''.'' # ext) # rest"
  have "scan_wine ([first] @ skipped @ marker # (m @ CHR ''_'' # sfx) # (f @ CHR ''.'' # ext) # rest)
          (length [first]) = length [first] + length skipped"
    using assms(1,2) by (rule scan_wine_finds)
  then have argi: "scan_wine ?args 1 = Suc (length skipped)" by simp
  have m: "?args ! (Suc (length skipped) + 1) = m @ CHR ''_'' # sfx"
    by (simp add: nth_append)
  have f: "?args ! (Suc (length skipped) + 2) = f @ CHR ''.'' # ext"
    by (simp add: nth_append)
  show ?thesis
    unfolding getTestID_def argi Let_def m f
    using assms(3,4) by (simp add: strrchr_last)
qed

section \<open>Whitelist: order and lookup\<close>

text \<open>
  C3. The claim: every entry of the whitelist array is strictly below its successor under
  byte-wise comparison. The entries at the indices 100 and 101 are in the opposite
  order: the colon is byte 58 and the letter d is byte 100.
\<close>

theorem whitelist_not_ascending:
  "\<not> ascending whitelist \<and> whitelist ! 100 = ''msvcrtd:debug''
     \<and> whitelist ! 101 = ''msvcrt:dir'' \<and> strcmp ''msvcrtd:debug'' ''msvcrt:dir'' = 1"
  by code_simp

text \<open>
  C4. The claim: \<^verbatim>\<open>inWhitelist\<close> returns true exactly for the strings that are equal to
  an entry of the array. The entry at index 100 is out of order, and the halving search
  does not reach it.
\<close>

theorem inWhitelist_misses_entry:
  "''msvcrtd:debug'' \<in> set whitelist \<and> \<not> inWhitelist ''msvcrtd:debug''"
  by code_simp










section \<open>Environment probe: what a failure returns\<close>

lemma digits_no_digit: "\<not> starts_with_digit cs \<Longrightarrow> digits 0 cs = 0"
  by (cases cs) (auto simp: starts_with_digit_def)

lemma atoi_no_number:
  assumes "no_number buf"
  shows "atoi buf = 0"
proof (cases "dropWhile isspace buf")
  case Nil
  show ?thesis unfolding atoi_def Nil by simp
next
  case (Cons c cs)
  with assms show ?thesis
    unfolding atoi_def no_number_def Cons
    by (auto simp: digits_no_digit simp del: digits.simps split: if_splits)
qed

text \<open>
  C9, as the claim states it, fails: a first line without a number makes
  \<^verbatim>\<open>getVideoMode\<close> return -2, not 0.
\<close>

theorem getVideoMode_unparsed_line_counterexample:
  "no_number ''unknown'' \<and> getVideoMode (First_line ''unknown'') \<noteq> 0"
  by code_simp

text \<open>
  C9, amended. When \<^verbatim>\<open>popen\<close> fails or the command prints no line, \<^verbatim>\<open>getVideoMode\<close>
  returns 0; when the first line holds no number, it returns -2, which is the 0 of
  \<^verbatim>\<open>atoi\<close> less the two header lines.
\<close>

theorem getVideoMode_failure_values:
  "getVideoMode Popen_failed = 0 \<and> getVideoMode No_line = 0
     \<and> (no_number buf \<longrightarrow> getVideoMode (First_line buf) = - 2)"
  by (simp add: getVideoMode_def atoi_no_number)

theorem getVideoMode_failure_values_witness:
  "no_number ''unknown'' \<and> getVideoMode (First_line ''unknown'') = - 2
     \<and> getVideoMode Popen_failed = 0 \<and> getVideoMode No_line = 0"
proof -
  have h: "no_number ''unknown''" by code_simp
  show ?thesis using h getVideoMode_failure_values [of "''unknown''"] by simp
qed

section \<open>The shape of a run\<close>

lemma copy_log_Write1: "a \<in> set (copy_log d) \<Longrightarrow> \<exists>s. a = Write1 s"
proof (induction d rule: copy_log.induct)
  case (1 rest)
  show ?case
  proof (cases "rest = []")
    case True
    with "1.prems" show ?thesis by (simp add: copy_log.simps)
  next
    case False
    with "1.prems" have "a = Write1 (take MYBUFLEN rest) \<or> a \<in> set (copy_log (drop MYBUFLEN rest))"
      by (subst (asm) copy_log.simps) simp
    with False "1.IH" show ?thesis by blast
  qed
qed


lemma tmplog_not_lock: "t @ ''.tmplog'' \<noteq> ''alarm.lock''"
proof
  assume "t @ ''.tmplog'' = ''alarm.lock''"
  then have "last (t @ ''.tmplog'') = last ''alarm.lock''" by simp
  then show False by simp
qed

lemma replay_actions:
  "a \<in> set (replay w t) \<Longrightarrow>
     (\<exists>ok. a = Open_file ''log.lock'' ok) \<or> (\<exists>op. a = Flock ''log.lock'' op) \<or> (\<exists>s. a = Write1 s)
     \<or> a = Rewind_log \<or> a = Close_log \<or> (\<exists>p. a = Remove p)"
  by (auto simp: replay_def split: if_splits dest: copy_log_Write1)

lemma release_lock_actions:
  "a \<in> set (release_lock w nw) \<Longrightarrow> nw \<and> a = Flock ''alarm.lock'' LOCK_UN"
  by (auto simp: release_lock_def split: if_splits)

lemma before_wait_actions:
  "a \<in> set (before_wait w nw t) \<Longrightarrow>
     (nw \<and> ((\<exists>v. a = GetVideoMode v) \<or> (\<exists>ok. a = Open_file ''alarm.lock'' ok)
            \<or> a = Flock ''alarm.lock'' LOCK_EX))
     \<or> a = Open_file (t @ ''.tmplog'') (log_opens w)
     \<or> (\<exists>cmd r. a = Fork_exec cmd r) \<or> (\<exists>n. a = Alarm n)"
  by (auto simp: before_wait_def split: if_splits)

lemma classify_actions:
  "a \<in> set (fst (classify w nw ws)) \<Longrightarrow>
     (\<exists>m. a = Printf m) \<or> (nw \<and> ((\<exists>v. a = GetVideoMode v) \<or> (\<exists>c. a = System c)))"
  by (auto simp: classify_def Let_def split: if_splits)

lemma handler_actions:
  "a \<in> set (fst handler) \<Longrightarrow>
     a = Stderr ''alarm: Timeout!  Killing child.\<newline>'' \<or> a = Kill_SIGKILL"
  by (auto simp: handler_def)






subsection \<open>The timer after the wait\<close>

lemma interrupted_actions:
  "a \<in> set (fst (interrupted late r)) \<Longrightarrow> a \<in> set (fst r) \<or> a \<in> set (fst handler)"
  by (auto simp: interrupted_def split: option.splits if_splits dest: in_set_takeD)


lemma after_wait_actions:
  "a \<in> set (fst (after_wait w nw t)) \<Longrightarrow>
     a \<in> set (replay w t) \<or> a \<in> set (release_lock w nw)
     \<or> a \<in> set (fst (classify w nw (waitresult w)))"
  by (auto simp: after_wait_def)

subsection \<open>From a run of \<^verbatim>\<open>main\<close> to its parts\<close>

lemma supervise_Deadline:
  assumes "supervise w nw t = Inr (tr, st)" and "wait_ends w = Alarm_first"
  shows "tr = before_wait w nw t @ [Wait Deadline, Stderr ''alarm: Timeout!  Killing child.\<newline>'', Kill_SIGKILL]"
    and "st = 1"
  using assms by (auto simp: supervise_def handler_def split: if_splits)

lemma supervise_after:
  assumes "supervise w nw t = Inr (tr, st)" and "wait_ends w \<noteq> Alarm_first"
  shows "tr = before_wait w nw t @ [Wait (observed w)]
            @ fst (interrupted (late_alarm w) (after_wait w nw t))"
    and "st = snd (interrupted (late_alarm w) (after_wait w nw t))"
  using assms by (auto simp: supervise_def split: if_splits)

lemma supervise_actions:
  assumes "supervise w nw t = Inr (tr, st)" and "a \<in> set tr"
  shows "a \<in> set (before_wait w nw t) \<or> (\<exists>ev. a = Wait ev) \<or> a \<in> set (fst handler)
         \<or> a \<in> set (replay w t) \<or> a \<in> set (release_lock w nw)
         \<or> a \<in> set (fst (classify w nw (waitresult w)))"
proof (cases "wait_ends w = Alarm_first")
  case True
  from supervise_Deadline(1) [OF assms(1) True] assms(2) show ?thesis
    by (auto simp: handler_def)
next
  case False
  from supervise_after(1) [OF assms(1) False] assms(2)
  have "a \<in> set (before_wait w nw t) \<or> a = Wait (observed w)
        \<or> a \<in> set (fst (interrupted (late_alarm w) (after_wait w nw t)))"
    by auto
  then show ?thesis
    by (blast dest: interrupted_actions after_wait_actions)
qed







lemma main_actions:
  assumes "main w = Inr (tr, st)" and "a \<in> set tr"
  shows "(\<exists>m. a = Stderr m) \<or> supervise w (notWhitelisted w) (testid w) = Inr (tr, st)"
  using assms by (auto simp: main_def split: if_splits)

subsection \<open>The result of the reset command\<close>








text \<open>A run ends without a fault when the contents of \<^verbatim>\<open>testid\<close> fit the buffer.\<close>

lemma main_runs: "length (testid w) < 64 \<Longrightarrow> \<exists>tr st. main w = Inr (tr, st)"
  by (auto simp: main_def supervise_def testid_def split: option.splits)

subsection \<open>The example runs, evaluated\<close>













section \<open>Failed extraction of the identity\<close>

text \<open>
  C1, as the claim states it, fails: in this parallel run no identity is found, and the
  supervisor neither probes the video mode nor takes the execution lock.
\<close>

theorem no_identity_counterexample:
  "identity w_fail = None \<and> isParallelRun (makeflags w_fail)
     \<and> main w_fail = Inr (trace_fail, 0)
     \<and> GetVideoMode 10 \<notin> set trace_fail \<and> Flock ''alarm.lock'' LOCK_EX \<notin> set trace_fail"
  by code_simp

text \<open>
  C1, amended. When \<^verbatim>\<open>getTestID\<close> finds no identity, \<^verbatim>\<open>notWhitelisted\<close> is false: the
  run holds no call of \<^verbatim>\<open>getVideoMode\<close>, and the execution lock file is neither opened
  nor locked. The test is handled like one on the whitelist.
\<close>

theorem no_identity_no_probe_no_lock:
  assumes "main w = Inr (tr, st)" and "identity w = None"
  shows "notWhitelisted w = False \<and> (\<forall>v. GetVideoMode v \<notin> set tr)
       \<and> (\<forall>ok. Open_file ''alarm.lock'' ok \<notin> set tr)
       \<and> (\<forall>op. Flock ''alarm.lock'' op \<notin> set tr)"
proof -
  have nw: "notWhitelisted w = False"
    using assms(2) by (simp add: notWhitelisted_def)
  have "(\<forall>v. a \<noteq> GetVideoMode v) \<and> (\<forall>ok. a \<noteq> Open_file ''alarm.lock'' ok)
          \<and> (\<forall>op. a \<noteq> Flock ''alarm.lock'' op)" if a: "a \<in> set tr" for a
  proof -
    from main_actions [OF assms(1) a] show ?thesis
    proof
      assume "\<exists>m. a = Stderr m"
      then show ?thesis by auto
    next
      assume "supervise w (notWhitelisted w) (testid w) = Inr (tr, st)"
      then have "supervise w False (testid w) = Inr (tr, st)" by (simp only: nw)
      from supervise_actions [OF this a] show ?thesis
        by (auto simp: tmplog_not_lock
            dest!: before_wait_actions replay_actions release_lock_actions classify_actions
              handler_actions)
    qed
  qed
  with nw show ?thesis by blast
qed

theorem no_identity_no_probe_no_lock_witness:
  "main w_fail = Inr (trace_fail, 0) \<and> identity w_fail = None
     \<and> notWhitelisted w_fail = False \<and> (\<forall>v. GetVideoMode v \<notin> set trace_fail)
     \<and> (\<forall>ok. Open_file ''alarm.lock'' ok \<notin> set trace_fail)
     \<and> (\<forall>op. Flock ''alarm.lock'' op \<notin> set trace_fail)"
proof -
  have h1: "main w_fail = Inr (trace_fail, 0)" by code_simp
  have h2: "identity w_fail = None" by code_simp
  from no_identity_no_probe_no_lock [OF h1 h2] h1 h2 show ?thesis by blast
qed

section \<open>Timeout\<close>



section \<open>Exit status after the child has ended\<close>










section \<open>Capture and replay of the child's output\<close>




end
